theory Spec2Isabelle
  imports Complex_Main
begin

section \<open>Python values and errors\<close>

text \<open>
  The trade simulator is Python. Its floats are modelled as exact reals (no rounding error,
  no overflow, no NaN), its dictionaries as maps, its exceptions as the left summand of a
  sum type. Only the exceptions the modelled code can raise appear.
\<close>

datatype py_error = KeyError | ZeroDivisionError | TypeError

definition bnd :: "py_error + 'a \<Rightarrow> ('a \<Rightarrow> py_error + 'b) \<Rightarrow> py_error + 'b" where
  "bnd m f = (case m of Inl e \<Rightarrow> Inl e | Inr x \<Rightarrow> f x)"

definition dict_get :: "(string \<rightharpoonup> 'a) \<Rightarrow> string \<Rightarrow> py_error + 'a" where
  \<comment> \<open>\<open>d[k]\<close>\<close>
  "dict_get d k = (case d k of None \<Rightarrow> Inl KeyError | Some v \<Rightarrow> Inr v)"

definition py_div :: "real \<Rightarrow> real \<Rightarrow> py_error + real" where
  \<comment> \<open>\<open>a / b\<close> on floats\<close>
  "py_div a b = (if b = 0 then Inl ZeroDivisionError else Inr (a / b))"

definition py_pow :: "real \<Rightarrow> real \<Rightarrow> py_error + real option" where
  \<comment> \<open>\<open>x ** y\<close> on floats; \<open>None\<close> stands for a complex result (negative base,
      fractional exponent), which no later float comparison accepts\<close>
  "py_pow x y =
     (if 0 < x then Inr (Some (x powr y))
      else if x = 0 then
        (if 0 < y then Inr (Some 0) else if y = 0 then Inr (Some 1) else Inl ZeroDivisionError)
      else if of_int \<lfloor>y\<rfloor> = y then Inr (Some (power_int x \<lfloor>y\<rfloor>))
      else Inr None)"

definition round_half_even :: "real \<Rightarrow> int" where
  "round_half_even x =
     (let f = \<lfloor>x\<rfloor>; d = x - of_int f
      in if d < 1 / 2 then f else if 1 / 2 < d then f + 1 else if even f then f else f + 1)"

definition py_round :: "real \<Rightarrow> nat \<Rightarrow> real" where
  \<comment> \<open>\<open>round(x, ndigits)\<close>: nearest multiple of \<open>10 ** -ndigits\<close>, ties to even\<close>
  "py_round x n = of_int (round_half_even (x * 10 ^ n)) / 10 ^ n"

definition upper_lower :: "(char \<times> char) list" where
  "upper_lower = zip ''ABCDEFGHIJKLMNOPQRSTUVWXYZ'' ''abcdefghijklmnopqrstuvwxyz''"

definition lower_char :: "char \<Rightarrow> char" where
  "lower_char c = (case map_of upper_lower c of None \<Rightarrow> c | Some l \<Rightarrow> l)"

definition lower :: "string \<Rightarrow> string" where
  \<comment> \<open>\<open>str.lower()\<close> on ASCII text\<close>
  "lower s = map lower_char s"

type_synonym level = "real \<times> real"
  \<comment> \<open>\<open>[price, quantity]\<close>\<close>

type_synonym order_book = "string \<rightharpoonup> level list"

definition best_price :: "order_book \<Rightarrow> string \<Rightarrow> py_error + real" where
  \<comment> \<open>\<open>order_book[k][0][0] if order_book[k] else 0\<close>\<close>
  "best_price order_book k =
     bnd (dict_get order_book k) (\<lambda>ls. Inr (case ls of [] \<Rightarrow> 0 | l # _ \<Rightarrow> fst l))"

definition level_fill :: "string \<Rightarrow> real \<Rightarrow> real \<Rightarrow> real \<Rightarrow> py_error + (real \<times> real)" where
  \<comment> \<open>how much of one level is taken: \<open>(executable_quote, executable_base)\<close>; the same
      lines stand in the engine's walk and in the slippage model's walk\<close>
  "level_fill side price quantity remaining =
     (if lower side = ''buy'' then
        (let max_executable_quote = price * quantity;
             executable_quote = min remaining max_executable_quote
         in bnd (py_div executable_quote price) (\<lambda>executable_base.
              Inr (executable_quote, executable_base)))
      else
        bnd (py_div remaining price) (\<lambda>d.
          let executable_base = min d quantity
          in Inr (executable_base * price, executable_base)))"

section \<open>Slippage model (src/slippage\_model.py)\<close>

definition calculate_slippage :: "string \<Rightarrow> real \<Rightarrow> real \<Rightarrow> real \<Rightarrow> real" where
  "calculate_slippage side mid_price executed_price order_size =
     (if mid_price \<le> 0 \<or> executed_price \<le> 0 then 0
      else
        (let slippage_pct =
               (if lower side = ''buy'' then ((executed_price - mid_price) / mid_price) * 100
                else ((mid_price - executed_price) / mid_price) * 100)
         in max 0 slippage_pct))"

fun rule_based_walk ::
  "string \<Rightarrow> level list \<Rightarrow> real \<times> real \<times> real \<Rightarrow> py_error + (real \<times> real \<times> real)" where
  \<comment> \<open>the loop of \<open>_estimate_slippage_rule_based\<close> over
      \<open>(remaining_size, total_cost, total_quantity_base)\<close>\<close>
  "rule_based_walk side [] st = Inr st"
| "rule_based_walk side ((price, quantity) # ls) (remaining_size, total_cost, total_quantity_base) =
     (if remaining_size \<le> 0 then Inr (remaining_size, total_cost, total_quantity_base)
      else
        (case level_fill side price quantity remaining_size of
           Inl e \<Rightarrow> Inl e
         | Inr (executable_quote, executable_base) \<Rightarrow>
             rule_based_walk side ls
               (remaining_size - executable_quote, total_cost + executable_quote,
                total_quantity_base + executable_base)))"

definition rule_based_avg_price :: "string \<Rightarrow> real \<Rightarrow> level list \<Rightarrow> py_error + real" where
  \<comment> \<open>\<open>avg_execution_price\<close> of \<open>_estimate_slippage_rule_based\<close>: the walk, then the
      unfilled rest priced at the last level\<close>
  "rule_based_avg_price side order_size levels =
     bnd (rule_based_walk side levels (order_size, 0, 0))
       (\<lambda>(remaining_size, total_cost, total_quantity_base).
          bnd (if 0 < remaining_size \<and> levels \<noteq> [] then
                 bnd (py_div remaining_size (fst (last levels))) (\<lambda>remaining_base.
                   Inr (total_cost + remaining_size, total_quantity_base + remaining_base))
               else Inr (total_cost, total_quantity_base))
            (\<lambda>(total_cost, total_quantity_base).
               Inr (if 0 < total_quantity_base then total_cost / total_quantity_base else 0)))"

definition estimate_slippage_rule_based :: "string \<Rightarrow> real \<Rightarrow> order_book \<Rightarrow> py_error + real" where
  "estimate_slippage_rule_based side order_size order_book =
     bnd (best_price order_book ''bids'') (\<lambda>best_bid.
     bnd (best_price order_book ''asks'') (\<lambda>best_ask.
       if best_bid \<le> 0 \<or> best_ask \<le> 0 then Inr 0
       else
         (let mid_price = (best_bid + best_ask) / 2;
              book_side = (if lower side = ''buy'' then ''asks'' else ''bids'')
          in bnd (dict_get order_book book_side) (\<lambda>levels.
             bnd (rule_based_avg_price side order_size levels) (\<lambda>avg_execution_price.
               Inr (calculate_slippage side mid_price avg_execution_price order_size))))))"

definition estimate_slippage_ml :: "string \<Rightarrow> real \<Rightarrow> order_book \<Rightarrow> py_error + real" where
  \<comment> \<open>\<open>_extract_features\<close> only reads both sides (its divisions are guarded and its
      result is unused); then the fixed power law, capped at 5\<close>
  "estimate_slippage_ml side order_size order_book =
     bnd (dict_get order_book ''bids'') (\<lambda>_.
     bnd (dict_get order_book ''asks'') (\<lambda>_.
     bnd (dict_get order_book (if lower side = ''buy'' then ''asks'' else ''bids'')) (\<lambda>levels.
       (let available_liquidity = sum_list (map snd levels);
            relative_size = (if 0 < available_liquidity then order_size / available_liquidity else 1)
        in bnd (py_pow relative_size (3 / 2)) (\<lambda>p.
             case p of None \<Rightarrow> Inl TypeError
             | Some v \<Rightarrow> Inr (min ((1 / 2) * v) 5))))))"

definition estimate_slippage :: "bool \<Rightarrow> string \<Rightarrow> real \<Rightarrow> order_book \<Rightarrow> py_error + real" where
  \<comment> \<open>the first argument is the model's \<open>use_ml_model\<close>\<close>
  "estimate_slippage use_ml_model side order_size order_book =
     (if use_ml_model then estimate_slippage_ml side order_size order_book
      else estimate_slippage_rule_based side order_size order_book)"

section \<open>Market impact model (src/impact\_model.py)\<close>

record MarketImpactModel =
  gamma :: real
  delta :: real
  adv :: "string \<rightharpoonup> real"

definition default_adv :: "string \<rightharpoonup> real" where
  "default_adv = [''BTC-USDT'' \<mapsto> 1000000000, ''ETH-USDT'' \<mapsto> 500000000, ''default'' \<mapsto> 100000000]"

definition MarketImpactModel_init :: "real \<Rightarrow> real \<Rightarrow> (string \<rightharpoonup> real) option \<Rightarrow> MarketImpactModel" where
  \<comment> \<open>\<open>self.adv = adv or {...}\<close>: \<open>None\<close> and the empty dictionary give the defaults\<close>
  "MarketImpactModel_init g d a =
     \<lparr>gamma = g, delta = d,
      adv = (case a of None \<Rightarrow> default_adv
             | Some m \<Rightarrow> if m = Map.empty then default_adv else m)\<rparr>"

definition calculate_liquidity_factor :: "string \<Rightarrow> order_book \<Rightarrow> py_error + real" where
  "calculate_liquidity_factor side order_book =
     bnd (best_price order_book ''bids'') (\<lambda>best_bid.
     bnd (best_price order_book ''asks'') (\<lambda>best_ask.
       if best_bid \<le> 0 \<or> best_ask \<le> 0 then Inr (3 / 2)
       else
         (let mid_price = (best_bid + best_ask) / 2;
              spread_bps = ((best_ask - best_bid) / mid_price) * 10000
          in bnd (dict_get order_book ''bids'') (\<lambda>bids.
             bnd (dict_get order_book ''asks'') (\<lambda>asks.
               (let bid_liquidity = sum_list (map snd (take 5 bids));
                    ask_liquidity = sum_list (map snd (take 5 asks))
                in bnd (if lower side = ''buy''
                        then py_div (bid_liquidity - ask_liquidity) (bid_liquidity + ask_liquidity)
                        else py_div (ask_liquidity - bid_liquidity) (bid_liquidity + ask_liquidity))
                     (\<lambda>imbalance.
                        (let imbalance_factor = 1 + max 0 imbalance;
                             spread_factor = 1 + spread_bps / 100;
                             liquidity_factor = spread_factor * imbalance_factor
                         in Inr (min (max (1 / 2) liquidity_factor) 3)))))))))"

definition calculate_impact ::
  "MarketImpactModel \<Rightarrow> string \<Rightarrow> real \<Rightarrow> order_book \<Rightarrow> string \<Rightarrow> py_error + real" where
  \<comment> \<open>\<open>self.adv.get(symbol, self.adv["default"])\<close> evaluates the default first\<close>
  "calculate_impact m side order_size order_book symbol =
     bnd (dict_get (adv m) ''default'') (\<lambda>dflt.
       (let a = (case adv m symbol of None \<Rightarrow> dflt | Some v \<Rightarrow> v)
        in bnd (py_div order_size a) (\<lambda>relative_size.
           bnd (py_pow relative_size (delta m)) (\<lambda>p.
           bnd (calculate_liquidity_factor side order_book) (\<lambda>liquidity_factor.
             case p of None \<Rightarrow> Inl TypeError
             | Some v \<Rightarrow> Inr (gamma m * v * liquidity_factor))))))"

definition update_adv :: "MarketImpactModel \<Rightarrow> string \<Rightarrow> real \<Rightarrow> MarketImpactModel" where
  "update_adv m symbol new_adv =
     (if new_adv \<le> 0 then m else m\<lparr>adv := (adv m)(symbol \<mapsto> new_adv)\<rparr>)"

section \<open>Fee model (src/fee\_model.py)\<close>

definition calculate_fee :: "real \<Rightarrow> real \<Rightarrow> string \<Rightarrow> real" where
  "calculate_fee order_amount fee_rate execution_type =
     (if order_amount \<le> 0 \<or> fee_rate < 0 then 0 else order_amount * (fee_rate / 100))"

section \<open>Execution engine (src/execution\_engine.py)\<close>

record ExecutionEngine =
  impact_model :: MarketImpactModel
  \<comment> \<open>the slippage and fee models hold no state that \<open>calculate_slippage\<close> or
      \<open>calculate_fee\<close> reads\<close>

definition ExecutionEngine_init :: ExecutionEngine where
  "ExecutionEngine_init = \<lparr>impact_model = MarketImpactModel_init (1 / 10) (1 / 2) None\<rparr>"

datatype warning =
    Msg string
  | PartiallyFilled real real string
    \<comment> \<open>\<open>f"Order partially filled: {executed:.2f}/{order_quantity:.2f} {execution_type}"\<close>\<close>
  | LargeImpact real
    \<comment> \<open>\<open>f"Large market impact: {impact_pct:.2f}%"\<close>\<close>

record ExecutionResult =
  executed_quantity_base :: real
  executed_quantity_quote :: real
  average_price :: real
  slippage_pct :: real
  market_impact_pct :: real
  fee_paid :: real
  execution_type :: string
  warnings :: "warning list"

definition create_error_result :: "string \<Rightarrow> ExecutionResult" where
  "create_error_result error_message =
     \<lparr>executed_quantity_base = 0, executed_quantity_quote = 0, average_price = 0,
      slippage_pct = 0, market_impact_pct = 0, fee_paid = 0,
      execution_type = ''fail'', warnings = [Msg error_message]\<rparr>"

definition validate_inputs ::
  "string \<Rightarrow> string \<Rightarrow> real \<Rightarrow> order_book option \<Rightarrow> real option \<Rightarrow> bool" where
  "validate_inputs side order_type order_quantity order_book order_price =
     (if lower side \<notin> set [''buy'', ''sell''] then False
      else if lower order_type \<notin> set [''market'', ''limit''] then False
      else if order_quantity \<le> 0 then False
      else
        (case order_book of
           None \<Rightarrow> False
         | Some ob \<Rightarrow>
             if ob = Map.empty \<or> ob ''bids'' = None \<or> ob ''asks'' = None then False
             else if ob ''bids'' = Some [] \<or> ob ''asks'' = Some [] then False
             else if lower order_type = ''limit''
                     \<and> (case order_price of None \<Rightarrow> True | Some p \<Rightarrow> p \<le> 0) then False
             else True))"

fun perturb_levels :: "(nat \<Rightarrow> real) \<Rightarrow> nat \<Rightarrow> real \<Rightarrow> real \<Rightarrow> level list \<Rightarrow> level list" where
  \<comment> \<open>the inner loop of \<open>_apply_latency_simulation\<close>; \<open>rng k\<close> is the k-th value that
      \<open>random.random()\<close> yields during the call, and \<open>random.uniform(a, b)\<close> is
      \<open>a + (b - a) * random()\<close>\<close>
  "perturb_levels rng k direction modification_factor [] = []"
| "perturb_levels rng k direction modification_factor ((price, quantity) # ls) =
     (let price_change = price * modification_factor * (0 + (1 / 2 - 0) * rng k) * direction;
          new_price = price + price_change;
          qty_change = quantity * modification_factor * (- (1 / 2) + (1 / 2 - (- (1 / 2))) * rng (k + 1));
          new_quantity = max (1 / 10000) (quantity + qty_change)
      in (new_price, new_quantity) # perturb_levels rng (k + 2) direction modification_factor ls)"

definition apply_latency_simulation ::
  "(nat \<Rightarrow> real) \<Rightarrow> order_book \<Rightarrow> int \<Rightarrow> py_error + order_book" where
  "apply_latency_simulation rng order_book latency =
     (let modification_factor = min (of_int latency / 1000) (1 / 10)
      in bnd (dict_get order_book ''bids'') (\<lambda>bids.
           (let stale_bids = perturb_levels rng 0 (- 1) modification_factor bids;
                stale_book = order_book(''bids'' \<mapsto> stale_bids)
            in bnd (dict_get stale_book ''asks'') (\<lambda>asks.
                 Inr (stale_book(''asks'' \<mapsto>
                   perturb_levels rng (2 * length bids) 1 modification_factor asks))))))"

definition beyond_limit :: "string \<Rightarrow> real \<Rightarrow> real option \<Rightarrow> py_error + bool" where
  \<comment> \<open>\<open>(buy and price > order_price) or (sell and price < order_price)\<close>; comparing a
      float with \<open>None\<close> raises TypeError\<close>
  "beyond_limit side price order_price =
     (if lower side = ''buy'' then
        (case order_price of None \<Rightarrow> Inl TypeError | Some lp \<Rightarrow> Inr (lp < price))
      else if lower side = ''sell'' then
        (case order_price of None \<Rightarrow> Inl TypeError | Some lp \<Rightarrow> Inr (price < lp))
      else Inr False)"

fun walk_book ::
  "string \<Rightarrow> string \<Rightarrow> real option \<Rightarrow> level list \<Rightarrow> real \<times> real \<times> real
     \<Rightarrow> py_error + (real \<times> real \<times> real)" where
  \<comment> \<open>the fill loop over the executed base quantity, the executed quote quantity and
      the remaining quote quantity\<close>
  "walk_book side order_type order_price [] st = Inr st"
| "walk_book side order_type order_price ((price, quantity) # ls)
       (executed_base, executed_quote, remaining_quote) =
     bnd (if lower order_type = ''limit'' then beyond_limit side price order_price else Inr False)
       (\<lambda>stop.
          if stop then Inr (executed_base, executed_quote, remaining_quote)
          else
            bnd (level_fill side price quantity remaining_quote)
              (\<lambda>(executable_quote, executable_base).
                 (let eb = executed_base + executable_base;
                      eq = executed_quote + executable_quote;
                      rem = remaining_quote - executable_quote
                  in if rem \<le> 1 / 100 then Inr (eb, eq, rem)
                     else walk_book side order_type order_price ls (eb, eq, rem))))"

definition is_marketable :: "string \<Rightarrow> string \<Rightarrow> real option \<Rightarrow> real \<Rightarrow> real \<Rightarrow> py_error + bool" where
  "is_marketable side order_type order_price best_bid best_ask =
     (if lower order_type = ''limit'' then
        (if lower side = ''buy'' then
           (case order_price of None \<Rightarrow> Inl TypeError | Some lp \<Rightarrow> Inr (best_ask \<le> lp))
         else if lower side = ''sell'' then
           (case order_price of None \<Rightarrow> Inl TypeError | Some lp \<Rightarrow> Inr (lp \<le> best_bid))
         else Inr False)
      else Inr True)"

definition fill_order ::
  "string \<Rightarrow> string \<Rightarrow> real \<Rightarrow> order_book \<Rightarrow> real option
     \<Rightarrow> py_error + (real \<times> real \<times> string \<times> warning list)" where
  \<comment> \<open>lines 69 to 137: the walk and the classification, before any rounding; the result is
      the executed base and quote quantities, the execution type and the warnings\<close>
  "fill_order side order_type order_quantity order_book order_price =
     (let book_side = (if lower side = ''buy'' then ''asks'' else ''bids'')
      in bnd (best_price order_book ''bids'') (\<lambda>best_bid.
         bnd (best_price order_book ''asks'') (\<lambda>best_ask.
         bnd (is_marketable side order_type order_price best_bid best_ask) (\<lambda>marketable.
         bnd (if marketable then
                bnd (dict_get order_book book_side) (\<lambda>levels.
                bnd (walk_book side order_type order_price levels (0, 0, order_quantity))
                  (\<lambda>(eb, eq, rem). Inr (eb, eq, ''taker'', [])))
              else if lower order_type = ''limit'' then
                Inr (0, 0, ''maker'', [Msg ''Limit order placed but not immediately executed''])
              else Inr (0, 0, ''fail'', []))
           (\<lambda>(eb, eq, etype, warns).
              if 0 < eq \<and> eq < order_quantity then
                Inr (eb, eq, ''partial'', warns @ [PartiallyFilled eq order_quantity ''partial''])
              else Inr (eb, eq, etype, warns))))))"

definition default_fee_profile :: "string \<rightharpoonup> real" where
  "default_fee_profile = [''maker'' \<mapsto> 6 / 100, ''taker'' \<mapsto> 8 / 100]"

definition compose_result ::
  "ExecutionEngine \<Rightarrow> string \<Rightarrow> order_book \<Rightarrow> (string \<rightharpoonup> real)
     \<Rightarrow> real \<times> real \<times> string \<times> warning list \<Rightarrow> py_error + ExecutionResult" where
  \<comment> \<open>lines 139 to 179\<close>
  "compose_result engine side order_book user_fee_profile filled =
     (case filled of (executed_base, executed_quote, etype, warns) \<Rightarrow>
        if executed_quote \<le> 0 then
          Inr (create_error_result
                 ''No execution: insufficient liquidity or non-marketable limit order'')
        else
          bnd (best_price order_book ''bids'') (\<lambda>best_bid.
          bnd (best_price order_book ''asks'') (\<lambda>best_ask.
            (let mid_price = (best_bid + best_ask) / 2;
                 avg_price = (if 0 < executed_base then executed_quote / executed_base else 0);
                 slippage = calculate_slippage side mid_price avg_price executed_quote
             in bnd (calculate_impact (impact_model engine) side executed_quote
                       order_book ''default'') (\<lambda>impact.
                bnd (dict_get user_fee_profile
                       (if etype = ''taker'' then ''taker'' else ''maker'')) (\<lambda>fee_rate.
                  (let fee = calculate_fee executed_quote fee_rate etype;
                       warns = (if 1 < impact then warns @ [LargeImpact impact] else warns)
                   in Inr \<lparr>executed_quantity_base = py_round executed_base 8,
                           executed_quantity_quote = py_round executed_quote 2,
                           average_price = py_round avg_price 2,
                           slippage_pct = py_round slippage 2,
                           market_impact_pct = py_round impact 2,
                           fee_paid = py_round fee 2,
                           execution_type = etype,
                           warnings = warns\<rparr>)))))))"

definition simulate_order_execution ::
  "ExecutionEngine \<Rightarrow> (nat \<Rightarrow> real) \<Rightarrow> string \<Rightarrow> string \<Rightarrow> real \<Rightarrow> order_book option
     \<Rightarrow> real option \<Rightarrow> int \<Rightarrow> (string \<rightharpoonup> real) option \<Rightarrow> py_error + ExecutionResult" where
  \<comment> \<open>the method assigns to no attribute of the engine or of its models, so the engine is
      an argument and no new engine is returned; \<open>rng\<close> is the random source that
      \<open>_apply_latency_simulation\<close> draws from\<close>
  "simulate_order_execution engine rng side order_type order_quantity order_book order_price
       latency user_fee_profile =
     (if \<not> validate_inputs side order_type order_quantity order_book order_price then
        Inr (create_error_result ''Invalid input parameters'')
      else
        (case order_book of
           None \<Rightarrow> Inl TypeError
         | Some ob \<Rightarrow>
             bnd (if 0 < latency then apply_latency_simulation rng ob latency else Inr ob)
               (\<lambda>ob.
                  (let profile =
                         (case user_fee_profile of None \<Rightarrow> default_fee_profile | Some p \<Rightarrow> p)
                   in bnd (fill_order side order_type order_quantity ob order_price)
                        (compose_result engine side ob profile)))))"

definition executed_quote_before_rounding ::
  "(nat \<Rightarrow> real) \<Rightarrow> string \<Rightarrow> string \<Rightarrow> real \<Rightarrow> order_book option \<Rightarrow> real option \<Rightarrow> int
     \<Rightarrow> py_error + real" where
  \<comment> \<open>the value of the local variable \<open>executed_quantity_quote\<close> when
      \<open>simulate_order_execution\<close> reaches line 135; 0 when validation has failed\<close>
  "executed_quote_before_rounding rng side order_type order_quantity order_book order_price latency =
     (if \<not> validate_inputs side order_type order_quantity order_book order_price then Inr 0
      else
        (case order_book of
           None \<Rightarrow> Inl TypeError
         | Some ob \<Rightarrow>
             bnd (if 0 < latency then apply_latency_simulation rng ob latency else Inr ob)
               (\<lambda>ob. bnd (fill_order side order_type order_quantity ob order_price)
                  (\<lambda>(eb, eq, etype, warns). Inr eq))))"

section \<open>A call and the state that outlives it\<close>

record World =
  world_engine :: ExecutionEngine
  world_random_draws :: nat

definition latency_draws ::
  "string \<Rightarrow> string \<Rightarrow> real \<Rightarrow> order_book option \<Rightarrow> real option \<Rightarrow> int \<Rightarrow> nat" where
  \<comment> \<open>how many values one call draws from the generator of the \<open>random\<close> module:
      \<open>_apply_latency_simulation\<close> runs after a passed validation when \<open>latency > 0\<close>, and
      calls \<open>random.uniform\<close> twice for every level of both sides\<close>
  "latency_draws side order_type order_quantity order_book order_price latency =
     (if validate_inputs side order_type order_quantity order_book order_price \<and> 0 < latency then
        (case order_book of
           None \<Rightarrow> 0
         | Some ob \<Rightarrow>
             (case (ob ''bids'', ob ''asks'') of
                (Some bids, Some asks) \<Rightarrow> 2 * (length bids + length asks)
              | _ \<Rightarrow> 0))
      else 0)"

definition call_simulate_order_execution ::
  "(nat \<Rightarrow> real) \<Rightarrow> World \<Rightarrow> string \<Rightarrow> string \<Rightarrow> real \<Rightarrow> order_book option \<Rightarrow> real option
     \<Rightarrow> int \<Rightarrow> (string \<rightharpoonup> real) option \<Rightarrow> (py_error + ExecutionResult) \<times> World" where
  \<comment> \<open>one call of the method on the state that outlives it: the engine object, and the
      process-wide generator of the \<open>random\<close> module, of which \<open>stream\<close> is the sequence of
      values and \<open>world_random_draws\<close> the number already drawn. The call assigns to no
      attribute of the engine; it advances the generator by what the latency simulation draws\<close>
  "call_simulate_order_execution stream w side order_type order_quantity order_book order_price
       latency user_fee_profile =
     (simulate_order_execution (world_engine w) (\<lambda>k. stream (world_random_draws w + k))
        side order_type order_quantity order_book order_price latency user_fee_profile,
      w\<lparr>world_random_draws :=
           world_random_draws w
           + latency_draws side order_type order_quantity order_book order_price latency\<rparr>)"

section \<open>The fill loop without errors\<close>

definition within_limit :: "string \<Rightarrow> string \<Rightarrow> real option \<Rightarrow> real \<Rightarrow> bool" where
  \<comment> \<open>the walk does not break at a level of this price\<close>
  "within_limit side order_type order_price price =
     (case order_price of
        None \<Rightarrow> True
      | Some lp \<Rightarrow>
          \<not> (lower order_type = ''limit''
             \<and> ((lower side = ''buy'' \<and> lp < price) \<or> (lower side = ''sell'' \<and> price < lp))))"

definition eligible_levels :: "string \<Rightarrow> string \<Rightarrow> real option \<Rightarrow> level list \<Rightarrow> level list" where
  \<comment> \<open>the levels before the first one beyond the limit price; all of them for a market order\<close>
  "eligible_levels side order_type order_price levels =
     takeWhile (\<lambda>l. within_limit side order_type order_price (fst l)) levels"

definition take_quote :: "real \<Rightarrow> real \<Rightarrow> real \<Rightarrow> real" where
  \<comment> \<open>the quote amount taken from one level of positive price\<close>
  "take_quote remaining price quantity = min remaining (price * quantity)"

fun fills :: "level list \<Rightarrow> real \<times> real \<times> real \<Rightarrow> real \<times> real \<times> real" where
  \<comment> \<open>the fill loop over levels of positive price within the limit, where nothing can raise\<close>
  "fills [] st = st"
| "fills ((price, quantity) # ls) (executed_base, executed_quote, remaining_quote) =
     (let x = take_quote remaining_quote price quantity;
          eb = executed_base + x / price;
          eq = executed_quote + x;
          rem = remaining_quote - x
      in if rem \<le> 1 / 100 then (eb, eq, rem) else fills ls (eb, eq, rem))"

section \<open>Test data\<close>

definition constant_random :: "real \<Rightarrow> nat \<Rightarrow> real" where
  \<comment> \<open>a random source that always yields the same value\<close>
  "constant_random u k = u"

definition mock_order_book :: order_book where
  \<comment> \<open>the order book of test\_simulation.py\<close>
  "mock_order_book =
     [''bids'' \<mapsto> [(27350.5, 1.5), (27345, 2), (27340, 3), (27335, 4), (27330, 5)],
      ''asks'' \<mapsto> [(27355, 1), (27360, 2), (27365, 3), (27370, 4), (27375, 5)]]"

definition thin_book :: order_book where
  "thin_book = [''bids'' \<mapsto> [(99, 1)], ''asks'' \<mapsto> [(100, 100)]]"

definition dust_book :: order_book where
  "dust_book = [''bids'' \<mapsto> [(1 / 2, 1)], ''asks'' \<mapsto> [(1, 9 / 2500)]]"

definition deep_book :: order_book where
  "deep_book = [''bids'' \<mapsto> [(1 / 2, 1)], ''asks'' \<mapsto> [(1, 1000)]]"

definition crossed_book :: order_book where
  "crossed_book = [''bids'' \<mapsto> [(110, 1)], ''asks'' \<mapsto> [(100, 1)]]"



definition step_random :: "nat \<Rightarrow> real" where
  \<comment> \<open>a random source that yields 0 twenty times and 1/2 from then on\<close>
  "step_random k = (if k < 20 then 0 else 1 / 2)"


section \<open>Evaluation\<close>

lemmas lower_defs = lower_def lower_char_def upper_lower_def

lemmas engine_defs =
  simulate_order_execution_def validate_inputs_def fill_order_def compose_result_def
  create_error_result_def is_marketable_def beyond_limit_def level_fill_def best_price_def
  calculate_slippage_def calculate_impact_def calculate_liquidity_factor_def calculate_fee_def
  ExecutionEngine_init_def MarketImpactModel_init_def default_adv_def default_fee_profile_def
  bnd_def dict_get_def py_div_def py_pow_def py_round_def round_half_even_def Let_def

lemma powr_half_eq: "0 \<le> r \<Longrightarrow> r * r = x \<Longrightarrow> x powr (1 / 2) = (r::real)"
proof -
  assume r: "0 \<le> r" and x: "r * r = x"
  have "0 \<le> x" using r x by auto
  then have "x powr (1 / 2) = sqrt x" by (rule powr_half_sqrt)
  also have "sqrt x = r" using r x by (intro real_sqrt_unique) (simp_all add: power2_eq_square)
  finally show ?thesis .
qed

lemma bnd_Inr [simp]: "bnd (Inr x) f = f x"
  by (simp add: bnd_def)

lemma bnd_Inl [simp]: "bnd (Inl e) f = Inl e"
  by (simp add: bnd_def)

lemma bnd_eq_Inr: "bnd m f = Inr y \<longleftrightarrow> (\<exists>x. m = Inr x \<and> f x = Inr y)"
  by (cases m) simp_all

section \<open>Validation\<close>

lemma validate_inputs_iff:
  "validate_inputs side order_type order_quantity order_book order_price \<longleftrightarrow>
     lower side \<in> {''buy'', ''sell''} \<and> lower order_type \<in> {''market'', ''limit''}
     \<and> 0 < order_quantity
     \<and> (\<exists>ob b bs a as. order_book = Some ob \<and> ob ''bids'' = Some (b # bs)
            \<and> ob ''asks'' = Some (a # as))
     \<and> (lower order_type = ''limit'' \<longrightarrow> (\<exists>p. order_price = Some p \<and> 0 < p))"
proof (cases order_book)
  case None
  then show ?thesis by (simp add: validate_inputs_def)
next
  case (Some ob)
  have nonempty: "ob \<noteq> Map.empty" if "ob ''bids'' = Some x" for x
    using that by auto
  have ne: "(\<exists>b bs. m = Some (b # bs)) \<longleftrightarrow> m \<noteq> None \<and> m \<noteq> Some []" for m :: "level list option"
    by (cases m; cases "the m") auto
  show ?thesis
    using Some nonempty ne [of "ob ''bids''"] ne [of "ob ''asks''"]
    by (cases order_price) (auto simp: validate_inputs_def not_le)
qed

section \<open>Rounding and the stages of a simulation\<close>

lemma round_half_even_mono: "x \<le> y \<Longrightarrow> round_half_even x \<le> round_half_even y"
proof -
  assume xy: "x \<le> y"
  then have fl: "\<lfloor>x\<rfloor> \<le> \<lfloor>y\<rfloor>" by (rule floor_mono)
  have ux: "round_half_even x \<le> \<lfloor>x\<rfloor> + 1" and ly: "\<lfloor>y\<rfloor> \<le> round_half_even y"
    by (simp_all add: round_half_even_def Let_def)
  show ?thesis
  proof (cases "\<lfloor>x\<rfloor> = \<lfloor>y\<rfloor>")
    case True
    with xy show ?thesis by (simp add: round_half_even_def Let_def)
  next
    case False
    with fl have "\<lfloor>x\<rfloor> + 1 \<le> \<lfloor>y\<rfloor>" by simp
    with ux ly show ?thesis by linarith
  qed
qed

lemma round_half_even_nonneg: "0 \<le> x \<Longrightarrow> 0 \<le> round_half_even x"
  using round_half_even_mono [of 0 x] by (simp add: round_half_even_def)



lemma py_round_nonneg: "0 \<le> x \<Longrightarrow> 0 \<le> py_round x n"
  by (simp add: py_round_def round_half_even_nonneg)



lemma calculate_slippage_nonneg: "0 \<le> calculate_slippage side mid_price executed_price order_size"
  by (simp add: calculate_slippage_def Let_def)

lemma calculate_fee_nonneg: "0 \<le> calculate_fee order_amount fee_rate etype"
  by (simp add: calculate_fee_def not_le not_less)

lemma compose_result_cases:
  assumes "compose_result engine side ob profile (eb, eq, etype, warns) = Inr r"
  shows "(eq \<le> 0 \<and> r = create_error_result
            ''No execution: insufficient liquidity or non-marketable limit order'')
       \<or> (0 < eq \<and> execution_type r = etype \<and> executed_quantity_quote r = py_round eq 2
           \<and> (\<exists>fee_rate. fee_paid r = py_round (calculate_fee eq fee_rate etype) 2))"
  using assms
  by (auto simp: compose_result_def bnd_eq_Inr Let_def not_le split: if_splits)

lemma simulate_cases:
  assumes "simulate_order_execution engine rng side order_type order_quantity order_book
             order_price latency user_fee_profile = Inr r"
  shows "(\<not> validate_inputs side order_type order_quantity order_book order_price
            \<and> r = create_error_result ''Invalid input parameters'')
       \<or> (\<exists>ob ob' eb eq etype warns.
            validate_inputs side order_type order_quantity order_book order_price
            \<and> order_book = Some ob
            \<and> (if 0 < latency then apply_latency_simulation rng ob latency else Inr ob) = Inr ob'
            \<and> fill_order side order_type order_quantity ob' order_price
                = Inr (eb, eq, etype, warns)
            \<and> compose_result engine side ob'
                 (case user_fee_profile of None \<Rightarrow> default_fee_profile | Some p \<Rightarrow> p)
                 (eb, eq, etype, warns)
               = Inr r)"
proof (cases "validate_inputs side order_type order_quantity order_book order_price")
  case False
  with assms show ?thesis by (simp add: simulate_order_execution_def)
next
  case True
  with assms obtain ob ob' filled where
    "order_book = Some ob"
    "(if 0 < latency then apply_latency_simulation rng ob latency else Inr ob) = Inr ob'"
    "fill_order side order_type order_quantity ob' order_price = Inr filled"
    "compose_result engine side ob'
       (case user_fee_profile of None \<Rightarrow> default_fee_profile | Some p \<Rightarrow> p) filled = Inr r"
    by (auto simp: simulate_order_execution_def bnd_eq_Inr Let_def split: option.splits)
  with True show ?thesis by (cases filled) auto
qed

section \<open>Properties of the fill loop\<close>

lemma level_fill_positive_price:
  "0 < price \<Longrightarrow>
   level_fill side price quantity remaining
   = Inr (take_quote remaining price quantity, take_quote remaining price quantity / price)"
  by (auto simp: level_fill_def py_div_def Let_def min_def field_simps take_quote_def)

lemma walk_book_fills:
  assumes "lower order_type = ''limit'' \<longrightarrow> order_price \<noteq> None"
    and "\<forall>l \<in> set levels. 0 < fst l"
  shows "walk_book side order_type order_price levels st
         = Inr (fills (eligible_levels side order_type order_price levels) st)"
  using assms(2)
proof (induction levels arbitrary: st)
  case Nil
  show ?case by (cases st) (simp add: eligible_levels_def)
next
  case (Cons l ls)
  obtain price quantity where l: "l = (price, quantity)" by (cases l)
  obtain eb eq rem where st: "st = (eb, eq, rem)" by (cases st)
  from Cons.prems l have price: "0 < price" and rest: "\<forall>l \<in> set ls. 0 < fst l" by simp_all
  have stop: "(if lower order_type = ''limit'' then beyond_limit side price order_price
               else Inr False)
              = Inr (\<not> within_limit side order_type order_price price)"
    using assms(1) by (auto simp: beyond_limit_def within_limit_def split: option.splits)
  show ?case
    using Cons.IH [OF rest] price
    by (simp add: l st stop level_fill_positive_price eligible_levels_def Let_def)
qed












lemma fill_order_non_marketable:
  assumes "lower order_type = ''limit''"
    and "ob ''bids'' = Some (b # bs)" and "ob ''asks'' = Some (a # as)"
    and "(lower side = ''buy'' \<and> lp < fst a) \<or> (lower side = ''sell'' \<and> fst b < lp)"
  shows "fill_order side order_type order_quantity ob (Some lp)
         = Inr (0, 0, ''maker'', [Msg ''Limit order placed but not immediately executed''])"
  using assms
  by (auto simp: fill_order_def best_price_def dict_get_def is_marketable_def Let_def)

lemma fill_order_fills:
  assumes valid: "validate_inputs side order_type order_quantity (Some ob) order_price"
    and levels: "ob (if lower side = ''buy'' then ''asks'' else ''bids'') = Some levels"
    and prices: "\<forall>l \<in> set levels. 0 < fst l"
    and fills: "fills (eligible_levels side order_type order_price levels) (0, 0, order_quantity)
                = (eb, eq, rem)"
  shows "\<exists>etype warns. fill_order side order_type order_quantity ob order_price
                          = Inr (eb, eq, etype, warns)"
proof -
  from valid obtain b bs a as where
    bids: "ob ''bids'' = Some (b # bs)" and asks: "ob ''asks'' = Some (a # as)"
    and side: "lower side = ''buy'' \<or> lower side = ''sell''"
    and limit: "lower order_type = ''limit'' \<longrightarrow> (\<exists>p. order_price = Some p)"
    unfolding validate_inputs_iff by auto
  have walk: "walk_book side order_type order_price levels (0, 0, order_quantity)
              = Inr (eb, eq, rem)"
    using walk_book_fills [of order_type order_price levels side "(0, 0, order_quantity)"]
      limit prices fills by auto
  show ?thesis
  proof (cases "is_marketable side order_type order_price (fst b) (fst a) = Inr True")
    case True
    then show ?thesis
      using bids asks levels walk
      by (simp add: fill_order_def best_price_def dict_get_def Let_def)
  next
    case False
    then obtain lp where lp: "order_price = Some lp" and lim: "lower order_type = ''limit''"
      and nm: "(lower side = ''buy'' \<and> lp < fst a) \<or> (lower side = ''sell'' \<and> fst b < lp)"
      using side limit by (auto simp: is_marketable_def split: if_splits)
    have "\<not> within_limit side order_type order_price (fst (hd levels))"
      using nm lp lim levels bids asks by (auto simp: within_limit_def)
    moreover have "levels \<noteq> []" using nm levels bids asks by auto
    ultimately have "eligible_levels side order_type order_price levels = []"
      by (cases levels) (simp_all add: eligible_levels_def)
    with fills have "eb = 0" "eq = 0" by simp_all
    then show ?thesis
      using fill_order_non_marketable [OF lim bids asks nm, of order_quantity] lp by simp
  qed
qed





section \<open>When a simulation returns a result\<close>

lemma calculate_liquidity_factor_returns:
  assumes "ob ''bids'' = Some bids" and "ob ''asks'' = Some asks"
    and "sum_list (map snd (take 5 bids)) + sum_list (map snd (take 5 asks)) \<noteq> 0"
  shows "\<exists>lf. calculate_liquidity_factor side ob = Inr lf"
proof -
  have "\<not> isl (calculate_liquidity_factor side ob)"
    using assms
    by (simp add: calculate_liquidity_factor_def best_price_def dict_get_def py_div_def Let_def)
  then show ?thesis by (cases "calculate_liquidity_factor side ob") simp_all
qed

lemma calculate_impact_returns:
  assumes "adv m ''default'' = Some A" and "0 < A" and "0 < x"
    and "calculate_liquidity_factor side ob = Inr lf"
  shows "calculate_impact m side x ob ''default'' = Inr (gamma m * (x / A) powr delta m * lf)"
proof -
  have "0 < x / A" using assms(2,3) by simp
  then have "py_pow (x / A) (delta m) = Inr (Some ((x / A) powr delta m))"
    by (simp add: py_pow_def)
  then show ?thesis
    using assms by (simp add: calculate_impact_def dict_get_def py_div_def Let_def)
qed

text \<open>
  At latency 0 the engine returns a result, and raises nothing, for every order over a book
  with positive prices whose five best levels carry some quantity, when the default ADV is
  positive and the fee profile, if given, holds both rates.
\<close>

lemma simulate_returns:
  assumes bids: "ob ''bids'' = Some bids" and asks: "ob ''asks'' = Some asks"
    and prices: "\<forall>l \<in> set bids \<union> set asks. 0 < fst l"
    and liquidity: "sum_list (map snd (take 5 bids)) + sum_list (map snd (take 5 asks)) \<noteq> 0"
    and adv: "adv (impact_model engine) ''default'' = Some A" "0 < A"
    and profile: "user_fee_profile = None
                  \<or> (\<exists>p mk tk. user_fee_profile = Some p \<and> p ''maker'' = Some mk \<and> p ''taker'' = Some tk)"
  shows "\<exists>r. simulate_order_execution engine rng side order_type order_quantity (Some ob)
               order_price 0 user_fee_profile = Inr r"
proof (cases "validate_inputs side order_type order_quantity (Some ob) order_price")
  case False
  then show ?thesis by (simp add: simulate_order_execution_def)
next
  case True
  let ?profile = "case user_fee_profile of None \<Rightarrow> default_fee_profile | Some p \<Rightarrow> p"
  define levels where "levels = (if lower side = ''buy'' then asks else bids)"
  have lv: "ob (if lower side = ''buy'' then ''asks'' else ''bids'') = Some levels"
    using bids asks by (simp add: levels_def)
  have pl: "\<forall>l \<in> set levels. 0 < fst l" using prices by (simp add: levels_def)
  obtain eb eq rem where
    "fills (eligible_levels side order_type order_price levels) (0, 0, order_quantity) = (eb, eq, rem)"
    by (cases "fills (eligible_levels side order_type order_price levels) (0, 0, order_quantity)")
  from fill_order_fills [OF True lv pl this] obtain etype warns where
    fo: "fill_order side order_type order_quantity ob order_price = Inr (eb, eq, etype, warns)"
    by blast
  have keys: "\<exists>rate. dict_get ?profile k = Inr rate" if "k = ''maker'' \<or> k = ''taker''" for k
  proof -
    have "\<not> isl (dict_get ?profile k)"
      using profile that by (auto simp: dict_get_def default_fee_profile_def)
    then show ?thesis by (cases "dict_get ?profile k") simp_all
  qed
  from True bids asks obtain b bs a as where "bids = b # bs" "asks = a # as"
    unfolding validate_inputs_iff by auto
  with bids asks have bp: "best_price ob ''bids'' = Inr (fst b)" "best_price ob ''asks'' = Inr (fst a)"
    by (simp_all add: best_price_def dict_get_def)
  obtain lf where lf: "calculate_liquidity_factor side ob = Inr lf"
    using calculate_liquidity_factor_returns [OF bids asks liquidity] by blast
  have "\<exists>r. compose_result engine side ob ?profile (eb, eq, etype, warns) = Inr r"
  proof (cases "eq \<le> 0")
    case True
    then show ?thesis by (simp add: compose_result_def)
  next
    case False
    then have "0 < eq" by simp
    note imp = calculate_impact_returns [OF adv this lf]
    have "(if etype = ''taker'' then ''taker'' else ''maker'') = ''maker''
          \<or> (if etype = ''taker'' then ''taker'' else ''maker'') = ''taker''"
      by simp
    from keys [OF this] obtain rate where
      "dict_get ?profile (if etype = ''taker'' then ''taker'' else ''maker'') = Inr rate"
      by blast
    with False show ?thesis
      by (simp add: compose_result_def bp imp Let_def)
  qed
  with True fo show ?thesis by (simp add: simulate_order_execution_def)
qed

section \<open>Fee rate of a partial fill\<close>

text \<open>
  C1. The claim: an execution classified \<open>partial\<close> is charged the taker rate of the fee
  profile. The engine selects \<open>user_fee_profile["taker"]\<close> only when the execution type is
  exactly \<open>taker\<close>; by then a partial fill has been relabelled \<open>partial\<close>, so the maker
  rate is charged. The fee model's own comment says a partial fill is treated as taker.
  Evaluated on a market buy of 20000 against 10000 of ask liquidity, with maker rate 0.06 and
  taker rate 0.08: the fee is 6 (maker), where the taker rate would give 8.
\<close>

theorem partial_fill_fee_uses_maker_rate:
  "simulate_order_execution ExecutionEngine_init (constant_random 0) ''buy'' ''market'' 20000
     (Some thin_book) None 0 (Some [''maker'' \<mapsto> 6 / 100, ''taker'' \<mapsto> 8 / 100])
   = Inr \<lparr>executed_quantity_base = 100, executed_quantity_quote = 10000, average_price = 100,
           slippage_pct = 1 / 2, market_impact_pct = 0, fee_paid = 6,
           execution_type = ''partial'',
           warnings = [PartiallyFilled 10000 20000 ''partial'']\<rparr>
   \<and> calculate_fee 10000 (6 / 100) ''partial'' = 6
   \<and> calculate_fee 10000 (8 / 100) ''partial'' = 8"
  by (simp add: engine_defs lower_defs thin_book_def powr_half_eq [of "1 / 100" "1 / 10000"])


section \<open>Non-marketable limit orders\<close>

text \<open>
  C2, as claimed: a valid non-marketable limit order yields a result of type \<open>maker\<close> with
  zero executed quantities and a warning that the order rests unfilled. The code does set the
  type to \<open>maker\<close> and appends that warning, but nothing was executed, so the gate
  \<open>if executed_quantity_quote <= 0\<close> returns the error result instead, whose message names
  this very case. A buy limit at 27000 below the best ask 27355 of the test book:
\<close>

theorem non_marketable_limit_reported_as_fail:
  "simulate_order_execution ExecutionEngine_init (constant_random 0) ''buy'' ''limit'' 1000
     (Some mock_order_book) (Some 27000) 0 None
   = Inr \<lparr>executed_quantity_base = 0, executed_quantity_quote = 0, average_price = 0,
           slippage_pct = 0, market_impact_pct = 0, fee_paid = 0,
           execution_type = ''fail'',
           warnings = [Msg ''No execution: insufficient liquidity or non-marketable limit order'']\<rparr>"
  by (simp add: engine_defs lower_defs mock_order_book_def)

lemma perturb_levels_Cons:
  "perturb_levels rng k d mf (l # ls)
   = (fst l + fst l * mf * (1 / 2 * rng k) * d,
      max (1 / 10000) (snd l + snd l * mf * (- (1 / 2) + rng (k + 1))))
     # perturb_levels rng (k + 2) d mf ls"
  by (cases l) (simp add: Let_def)

text \<open>
  C2, amended: for every valid non-marketable limit order (buy with limit price below the best
  ask, or sell with limit price above the best bid, over a book with at least one level on each
  side), \<open>simulate_order_execution\<close> returns the \<open>fail\<close> result with zero executed
  quantities and the single warning
  \<open>No execution: insufficient liquidity or non-marketable limit order\<close>. This holds at every
  latency, when the random source yields values of the unit interval: the latency perturbation
  moves asks up and bids down, so the order stays non-marketable.
\<close>

theorem non_marketable_limit_fails:
  assumes valid: "validate_inputs side order_type order_quantity (Some ob) (Some lp)"
    and limit: "lower order_type = ''limit''"
    and bids: "ob ''bids'' = Some (b # bs)" and asks: "ob ''asks'' = Some (a # as)"
    and non_marketable:
      "(lower side = ''buy'' \<and> lp < fst a) \<or> (lower side = ''sell'' \<and> fst b < lp)"
    and rng: "0 < latency \<longrightarrow> (\<forall>k. 0 \<le> rng k \<and> rng k \<le> 1)"
  shows "simulate_order_execution engine rng side order_type order_quantity (Some ob) (Some lp)
           latency user_fee_profile
         = Inr \<lparr>executed_quantity_base = 0, executed_quantity_quote = 0, average_price = 0,
                 slippage_pct = 0, market_impact_pct = 0, fee_paid = 0,
                 execution_type = ''fail'',
                 warnings =
                   [Msg ''No execution: insufficient liquidity or non-marketable limit order'']\<rparr>"
proof -
  have lp: "0 < lp"
    using valid limit by (simp add: validate_inputs_iff)
  define mf :: real where "mf = min (of_int latency / 1000) (1 / 10)"
  define ob' where "ob' = (if 0 < latency
     then ob(''bids'' \<mapsto> perturb_levels rng 0 (- 1) mf (b # bs),
             ''asks'' \<mapsto> perturb_levels rng (2 * length (b # bs)) 1 mf (a # as))
     else ob)"
  have stale: "(if 0 < latency then apply_latency_simulation rng ob latency else Inr ob) = Inr ob'"
    using bids asks by (simp add: apply_latency_simulation_def dict_get_def ob'_def mf_def Let_def)
  have fill: "fill_order side order_type order_quantity ob' (Some lp)
         = Inr (0, 0, ''maker'', [Msg ''Limit order placed but not immediately executed''])"
  proof (cases "0 < latency")
    case False
    then show ?thesis
      using fill_order_non_marketable [OF limit bids asks non_marketable] by (simp add: ob'_def)
  next
    case True
    then have mf: "0 < mf" "mf \<le> 1 / 10" by (simp_all add: mf_def)
    let ?u = "rng 0" and ?v = "rng (2 * length (b # bs))"
    from True rng have u: "0 \<le> ?u" "?u \<le> 1" and v: "0 \<le> ?v" "?v \<le> 1" by blast+
    let ?b' = "fst b + fst b * mf * (1 / 2 * ?u) * (- 1)"
    let ?a' = "fst a + fst a * mf * (1 / 2 * ?v) * 1"
    have bids': "ob' ''bids'' = Some ((?b', max (1 / 10000) (snd b + snd b * mf * (- (1 / 2) + rng (0 + 1))))
                   # perturb_levels rng (0 + 2) (- 1) mf bs)"
      using True by (simp only: ob'_def perturb_levels_Cons) simp
    have asks': "ob' ''asks'' = Some ((?a', max (1 / 10000) (snd a + snd a * mf * (- (1 / 2) + rng (2 * length (b # bs) + 1))))
                   # perturb_levels rng (2 * length (b # bs) + 2) 1 mf as)"
      using True by (simp only: ob'_def perturb_levels_Cons) simp
    have nm: "(lower side = ''buy'' \<and> lp < ?a') \<or> (lower side = ''sell'' \<and> ?b' < lp)"
    proof -
      have f: "0 \<le> mf * (1 / 2 * ?v)" using mf v by simp
      have "mf * ?u \<le> (1 / 10) * 1"
        using mf u by (intro mult_mono) simp_all
      then have g: "0 \<le> mf * (1 / 2 * ?u)" "mf * (1 / 2 * ?u) \<le> 1 / 20"
        using mf u by simp_all
      { assume "lp < fst a"
        with lp have "0 \<le> fst a" by simp
        then have "0 \<le> fst a * (mf * (1 / 2 * ?v))" using f by (rule mult_nonneg_nonneg)
        with \<open>lp < fst a\<close> have "lp < ?a'" by (simp add: mult.assoc) }
      moreover
      { assume lt: "fst b < lp"
        have eq: "?b' = fst b * (1 - mf * (1 / 2 * ?u))" by (simp add: algebra_simps)
        have "?b' < lp"
        proof (cases "0 \<le> fst b")
          case True
          have "fst b * (1 - mf * (1 / 2 * ?u)) \<le> fst b * 1"
            using True g by (intro mult_left_mono) simp_all
          with lt eq show ?thesis by simp
        next
          case False
          then have "fst b * (1 - mf * (1 / 2 * ?u)) \<le> 0"
            using g by (intro mult_nonpos_nonneg) simp_all
          with lp eq show ?thesis by simp
        qed }
      ultimately show ?thesis using non_marketable by blast
    qed
    show ?thesis
      using fill_order_non_marketable [OF limit bids' asks'] nm by simp
  qed
  show ?thesis
    using valid stale fill
    by (simp add: simulate_order_execution_def compose_result_def create_error_result_def)
qed

theorem non_marketable_limit_fails_witness:
  "simulate_order_execution ExecutionEngine_init (constant_random (1 / 2)) ''sell'' ''limit'' 1000
     (Some mock_order_book) (Some 27352) 250 None
   = Inr \<lparr>executed_quantity_base = 0, executed_quantity_quote = 0, average_price = 0,
           slippage_pct = 0, market_impact_pct = 0, fee_paid = 0,
           execution_type = ''fail'',
           warnings = [Msg ''No execution: insufficient liquidity or non-marketable limit order'']\<rparr>"
  using non_marketable_limit_fails [of "''sell''" "''limit''" 1000 mock_order_book 27352
      "(27350.5, 1.5)" "[(27345, 2), (27340, 3), (27335, 4), (27330, 5)]"
      "(27355, 1)" "[(27360, 2), (27365, 3), (27370, 4), (27375, 5)]" 250 "constant_random (1 / 2)"
      ExecutionEngine_init None]
  by (simp add: validate_inputs_def lower_defs mock_order_book_def constant_random_def)

section \<open>Validation failures\<close>

text \<open>
  C3. Whenever an input violates validation (the side, lowercased, is neither \<open>buy\<close> nor
  \<open>sell\<close>; the type, lowercased, is neither \<open>market\<close> nor \<open>limit\<close>; the quantity
  is not positive; the book is missing, lacks a side or has an empty side; a limit order has no
  limit price or a non-positive one), \<open>simulate_order_execution\<close> raises nothing and returns
  the \<open>fail\<close> result with every numeric field 0 and the warning
  \<open>Invalid input parameters\<close>, whatever the engine, the latency and the fee profile.
\<close>

theorem invalid_input_fails:
  assumes "lower side \<notin> {''buy'', ''sell''}
         \<or> lower order_type \<notin> {''market'', ''limit''}
         \<or> order_quantity \<le> 0
         \<or> order_book = None
         \<or> (\<exists>ob. order_book = Some ob
               \<and> (ob ''bids'' = None \<or> ob ''asks'' = None
                    \<or> ob ''bids'' = Some [] \<or> ob ''asks'' = Some []))
         \<or> (lower order_type = ''limit''
               \<and> (order_price = None \<or> (\<exists>p. order_price = Some p \<and> p \<le> 0)))"
  shows "simulate_order_execution engine rng side order_type order_quantity order_book
           order_price latency user_fee_profile
         = Inr \<lparr>executed_quantity_base = 0, executed_quantity_quote = 0, average_price = 0,
                 slippage_pct = 0, market_impact_pct = 0, fee_paid = 0,
                 execution_type = ''fail'', warnings = [Msg ''Invalid input parameters'']\<rparr>"
proof -
  have "\<not> validate_inputs side order_type order_quantity order_book order_price"
    using assms unfolding validate_inputs_iff by auto
  then show ?thesis
    by (simp add: simulate_order_execution_def create_error_result_def)
qed

theorem invalid_input_fails_witness:
  "simulate_order_execution ExecutionEngine_init (constant_random 0) ''buy'' ''limit'' 300
     (Some mock_order_book) (Some (- 5)) 0 None
   = Inr \<lparr>executed_quantity_base = 0, executed_quantity_quote = 0, average_price = 0,
           slippage_pct = 0, market_impact_pct = 0, fee_paid = 0,
           execution_type = ''fail'', warnings = [Msg ''Invalid input parameters'']\<rparr>"
  using invalid_input_fails [of "''buy''" "''limit''" 300 "Some mock_order_book" "Some (- 5)"
      ExecutionEngine_init "constant_random 0" 0 None]
  by (simp add: lower_defs)

section \<open>Bounds on the executed quote amount\<close>




section \<open>Classification of results\<close>

lemma fill_order_type:
  assumes "fill_order side order_type order_quantity ob order_price = Inr (eb, eq, etype, warns)"
  shows "etype \<in> {''taker'', ''maker'', ''partial'', ''fail''}
       \<and> (etype = ''partial'' \<longleftrightarrow> 0 < eq \<and> eq < order_quantity)"
  using assms
  by (auto simp: fill_order_def bnd_eq_Inr Let_def split: if_splits)

text \<open>
  C5, as claimed: in every result the type is \<open>partial\<close> exactly when
  \<open>0 < executed_quantity_quote < requested quantity\<close>. The type is decided on the executed
  quote amount before rounding, and the result carries that amount rounded to 2 decimals. So a
  \<open>partial\<close> result can report \<open>executed_quantity_quote = 0\<close> (0.0036 filled of 1
  requested), and a \<open>taker\<close> result can report less than was requested (100.2 reported
  for 100.2001 requested and filled).
\<close>

theorem partial_with_zero_reported_quote:
  "simulate_order_execution ExecutionEngine_init (constant_random 0) ''buy'' ''market'' 1 (Some dust_book)
     None 0 None
   = Inr \<lparr>executed_quantity_base = 9 / 2500, executed_quantity_quote = 0, average_price = 1,
           slippage_pct = 3333 / 100, market_impact_pct = 0, fee_paid = 0,
           execution_type = ''partial'',
           warnings = [PartiallyFilled (9 / 2500) 1 ''partial'']\<rparr>
   \<and> simulate_order_execution ExecutionEngine_init (constant_random 0) ''buy'' ''market'' (1002001 / 10000)
       (Some deep_book) None 0 None
     = Inr \<lparr>executed_quantity_base = 1002001 / 10000, executed_quantity_quote = 1002 / 10,
             average_price = 1, slippage_pct = 3333 / 100, market_impact_pct = 0,
             fee_paid = 8 / 100, execution_type = ''taker'', warnings = []\<rparr>"
  by (simp add: engine_defs lower_defs dust_book_def deep_book_def
      powr_half_eq [of "3 / 500000" "9 / 250000000000"]
      powr_half_eq [of "1001 / 1000000" "1002001 / 1000000000000"])

text \<open>
  C5, amended: every result of \<open>simulate_order_execution\<close> carries one execution type out
  of \<open>taker\<close>, \<open>maker\<close>, \<open>partial\<close>, \<open>fail\<close>, and the type is \<open>partial\<close> if and
  only if the executed quote amount before rounding is strictly between 0 and the requested
  quantity; the reported \<open>executed_quantity_quote\<close> is that amount rounded to 2 decimals
  (0 when nothing was executed).
\<close>

theorem execution_type_partition:
  assumes "simulate_order_execution engine rng side order_type order_quantity order_book
             order_price latency user_fee_profile = Inr r"
  shows "execution_type r \<in> {''taker'', ''maker'', ''partial'', ''fail''}
       \<and> (\<exists>eq. executed_quote_before_rounding rng side order_type order_quantity order_book
                  order_price latency = Inr eq
              \<and> (execution_type r = ''partial'' \<longleftrightarrow> 0 < eq \<and> eq < order_quantity)
              \<and> executed_quantity_quote r = (if eq \<le> 0 then 0 else py_round eq 2))"
  using simulate_cases [OF assms]
proof (elim disjE exE conjE)
  assume "\<not> validate_inputs side order_type order_quantity order_book order_price"
    and "r = create_error_result ''Invalid input parameters''"
  then show ?thesis
    by (simp add: executed_quote_before_rounding_def create_error_result_def)
next
  fix ob ob' eb eq etype warns
  assume valid: "validate_inputs side order_type order_quantity order_book order_price"
    and ob: "order_book = Some ob"
    and lat: "(if 0 < latency then apply_latency_simulation rng ob latency else Inr ob) = Inr ob'"
    and fill: "fill_order side order_type order_quantity ob' order_price
                 = Inr (eb, eq, etype, warns)"
    and comp: "compose_result engine side ob'
                 (case user_fee_profile of None \<Rightarrow> default_fee_profile | Some p \<Rightarrow> p)
                 (eb, eq, etype, warns) = Inr r"
  have eq: "executed_quote_before_rounding rng side order_type order_quantity order_book
              order_price latency = Inr eq"
    using valid ob lat fill by (simp add: executed_quote_before_rounding_def)
  from fill_order_type [OF fill] compose_result_cases [OF comp] eq show ?thesis
    by (auto simp: create_error_result_def)
qed

theorem execution_type_partition_witness:
  "simulate_order_execution ExecutionEngine_init (constant_random 0) ''buy'' ''market'' 20000
     (Some thin_book) None 0 None
   = Inr \<lparr>executed_quantity_base = 100, executed_quantity_quote = 10000, average_price = 100,
           slippage_pct = 1 / 2, market_impact_pct = 0, fee_paid = 6,
           execution_type = ''partial'',
           warnings = [PartiallyFilled 10000 20000 ''partial'']\<rparr>
   \<and> ''partial'' \<in> {''taker'', ''maker'', ''partial'', ''fail''}
   \<and> executed_quote_before_rounding (constant_random 0) ''buy'' ''market'' 20000 (Some thin_book) None 0
       = Inr 10000
   \<and> py_round 10000 2 = 10000"
  using execution_type_partition [of ExecutionEngine_init "constant_random 0" "''buy''" "''market''" 20000
      "Some thin_book" None 0 None
      "\<lparr>executed_quantity_base = 100, executed_quantity_quote = 10000, average_price = 100,
           slippage_pct = 1 / 2, market_impact_pct = 0, fee_paid = 6,
           execution_type = ''partial'',
           warnings = [PartiallyFilled 10000 20000 ''partial'']\<rparr>"]
  by (simp add: engine_defs lower_defs thin_book_def executed_quote_before_rounding_def
      powr_half_eq [of "1 / 100" "1 / 10000"])

section \<open>Rule-based slippage estimate\<close>

lemma level_fill_returns:
  "price \<noteq> 0 \<Longrightarrow> \<exists>xq xb. level_fill side price quantity remaining = Inr (xq, xb)"
  by (simp add: level_fill_def py_div_def Let_def)

lemma rule_based_walk_returns:
  "\<forall>l \<in> set levels. fst l \<noteq> 0 \<Longrightarrow> \<exists>st'. rule_based_walk side levels st = Inr st'"
proof (induction levels arbitrary: st)
  case Nil
  show ?case by (cases st) simp
next
  case (Cons l ls)
  obtain price quantity where l: "l = (price, quantity)" by (cases l)
  obtain remaining_size total_cost total_base where st: "st = (remaining_size, total_cost, total_base)"
    by (cases st)
  from Cons.prems l have "price \<noteq> 0" by simp
  then obtain xq xb where "level_fill side price quantity remaining_size = Inr (xq, xb)"
    using level_fill_returns by blast
  moreover from Cons.prems have "\<forall>l \<in> set ls. fst l \<noteq> 0" by simp
  ultimately show ?case
    using Cons.IH [of "(remaining_size - xq, total_cost + xq, total_base + xb)"] l st by simp
qed

lemma rule_based_avg_price_returns:
  assumes "\<forall>l \<in> set levels. fst l \<noteq> 0"
  shows "\<exists>avg. rule_based_avg_price side order_size levels = Inr avg"
proof -
  obtain r c q where "rule_based_walk side levels (order_size, 0, 0) = Inr (r, c, q)"
    using rule_based_walk_returns [OF assms, of side "(order_size, 0, 0)"]
    by (metis prod_cases3)
  moreover have "fst (last levels) \<noteq> 0" if "levels \<noteq> []"
    using that assms by simp
  ultimately show ?thesis
    by (simp add: rule_based_avg_price_def py_div_def)
qed

text \<open>
  C6, as claimed: over a book with positive best bid and best ask, \<open>estimate_slippage\<close> in
  rule-based mode returns the signed value \<open>((avg - mid) / mid) * 100\<close> for a buy, which may be
  negative. The rule-based path ends by calling \<open>calculate_slippage\<close>, so its result is
  floored at 0 as well. A buy of 50 over a crossed book (best bid 110, best ask 100) is filled
  at 100 against a mid price of 105: the signed value is negative, the estimate is 0.
\<close>

theorem rule_based_slippage_not_signed:
  "estimate_slippage False ''buy'' 50 crossed_book = Inr 0
   \<and> rule_based_avg_price ''buy'' 50 [(100, 1)] = Inr 100
   \<and> ((100 - (110 + 100) / 2) / ((110 + 100) / 2)) * 100 < (0::real)"
  by (simp add: estimate_slippage_def estimate_slippage_rule_based_def rule_based_avg_price_def
      crossed_book_def best_price_def dict_get_def level_fill_def py_div_def
      calculate_slippage_def lower_defs Let_def)

text \<open>
  C6, amended: \<open>estimate_slippage\<close> in rule-based mode never returns a negative value. Over a
  book with positive best bid and best ask and no zero price on the contra side it returns
  \<open>max 0\<close> of the signed value (\<open>((avg - mid) / mid) * 100\<close> for a buy,
  \<open>((mid - avg) / mid) * 100\<close> otherwise) when the average fill price \<open>avg\<close> of its book
  walk is positive, and 0 when it is not: the value \<open>calculate_slippage\<close> gives for that
  average price.
\<close>

theorem rule_based_slippage_floored:
  "(\<forall>v. estimate_slippage False side order_size ob = Inr v \<longrightarrow> 0 \<le> v)
   \<and> (ob ''bids'' = Some (b # bs) \<and> ob ''asks'' = Some (a # as) \<and> 0 < fst b \<and> 0 < fst a
        \<and> (\<forall>l \<in> set (if lower side = ''buy'' then a # as else b # bs). fst l \<noteq> 0)
      \<longrightarrow> (\<exists>avg. rule_based_avg_price side order_size
                      (if lower side = ''buy'' then a # as else b # bs) = Inr avg
                \<and> estimate_slippage False side order_size ob
                    = Inr (if avg \<le> 0 then 0
                           else max 0 (if lower side = ''buy''
                                       then ((avg - (fst b + fst a) / 2) / ((fst b + fst a) / 2)) * 100
                                       else (((fst b + fst a) / 2 - avg) / ((fst b + fst a) / 2)) * 100))))"
proof (intro conjI allI impI)
  fix v
  assume "estimate_slippage False side order_size ob = Inr v"
  then show "0 \<le> v"
    by (auto simp: estimate_slippage_def estimate_slippage_rule_based_def bnd_eq_Inr Let_def
        calculate_slippage_nonneg split: if_splits)
next
  assume h: "ob ''bids'' = Some (b # bs) \<and> ob ''asks'' = Some (a # as) \<and> 0 < fst b \<and> 0 < fst a
        \<and> (\<forall>l \<in> set (if lower side = ''buy'' then a # as else b # bs). fst l \<noteq> 0)"
  let ?levels = "if lower side = ''buy'' then a # as else b # bs"
  from h obtain avg where avg: "rule_based_avg_price side order_size ?levels = Inr avg"
    using rule_based_avg_price_returns [of ?levels side order_size] by blast
  have "estimate_slippage False side order_size ob
          = Inr (calculate_slippage side ((fst b + fst a) / 2) avg order_size)"
    using h avg
    by (auto simp: estimate_slippage_def estimate_slippage_rule_based_def best_price_def
        dict_get_def Let_def)
  moreover have "0 < (fst b + fst a) / 2" using h by simp
  ultimately show "\<exists>avg. rule_based_avg_price side order_size ?levels = Inr avg
                \<and> estimate_slippage False side order_size ob
                    = Inr (if avg \<le> 0 then 0
                           else max 0 (if lower side = ''buy''
                                       then ((avg - (fst b + fst a) / 2) / ((fst b + fst a) / 2)) * 100
                                       else (((fst b + fst a) / 2 - avg) / ((fst b + fst a) / 2)) * 100))"
    using avg by (auto simp: calculate_slippage_def Let_def)
qed

theorem rule_based_slippage_floored_witness:
  "estimate_slippage False ''buy'' 50 crossed_book = Inr 0
   \<and> 0 \<le> (0::real)
   \<and> rule_based_avg_price ''buy'' 50 [(100, 1)] = Inr 100
   \<and> max 0 (((100 - (110 + 100) / 2) / ((110 + 100) / 2)) * 100) = (0::real)"
  using rule_based_slippage_floored [of "''buy''" 50 crossed_book "(110, 1)" "[]" "(100, 1)" "[]"]
  by (simp add: estimate_slippage_def estimate_slippage_rule_based_def rule_based_avg_price_def
      crossed_book_def best_price_def dict_get_def level_fill_def py_div_def
      calculate_slippage_def lower_defs Let_def)

section \<open>Repeated calls without latency\<close>





text \<open>
  With a positive latency a call draws two random values for every level of the book, so the
  next call, on the same arguments, meets another generator state and returns another result.
\<close>

lemma call_with_latency_advances_generator:
  "world_random_draws
     (snd (call_simulate_order_execution (constant_random 0)
             \<lparr>world_engine = ExecutionEngine_init, world_random_draws = 0\<rparr>
             ''buy'' ''market'' 400 (Some mock_order_book) None 100 None)) = 20"
  by (simp add: call_simulate_order_execution_def latency_draws_def validate_inputs_def
      lower_defs mock_order_book_def)

lemma repeated_call_with_latency_differs:
  "fst (call_simulate_order_execution step_random
          (snd (call_simulate_order_execution step_random
                  \<lparr>world_engine = ExecutionEngine_init, world_random_draws = 0\<rparr>
                  ''buy'' ''market'' 400 (Some mock_order_book) None 100 None))
          ''buy'' ''market'' 400 (Some mock_order_book) None 100 None)
   \<noteq> fst (call_simulate_order_execution step_random
            \<lparr>world_engine = ExecutionEngine_init, world_random_draws = 0\<rparr>
            ''buy'' ''market'' 400 (Some mock_order_book) None 100 None)"
  by (simp add: call_simulate_order_execution_def latency_draws_def engine_defs lower_defs
      mock_order_book_def apply_latency_simulation_def step_random_def
      powr_half_eq [of "1 / 500" "1 / 250000"])

section \<open>Monotonicity in the order quantity\<close>























section \<open>Updating the ADV table\<close>

text \<open>
  C9. For every symbol, \<open>update_adv\<close> with a value \<open>\<le> 0\<close> leaves the model unchanged, so
  that \<open>calculate_impact\<close> afterwards computes what it computed before; with a positive value
  the table entry of the symbol is the new value.
\<close>

theorem update_adv_rejects_non_positive:
  "(new_adv \<le> 0 \<longrightarrow>
      update_adv m symbol new_adv = m
      \<and> calculate_impact (update_adv m symbol new_adv) side order_size order_book symbol
          = calculate_impact m side order_size order_book symbol)
   \<and> (0 < new_adv \<longrightarrow> adv (update_adv m symbol new_adv) symbol = Some new_adv)"
  by (simp add: update_adv_def)

theorem update_adv_rejects_non_positive_witness:
  "update_adv (MarketImpactModel_init (1 / 10) (1 / 2) None) ''BTC-USDT'' (- 1)
     = MarketImpactModel_init (1 / 10) (1 / 2) None
   \<and> calculate_impact (update_adv (MarketImpactModel_init (1 / 10) (1 / 2) None) ''BTC-USDT'' (- 1))
        ''buy'' 400 mock_order_book ''BTC-USDT''
      = calculate_impact (MarketImpactModel_init (1 / 10) (1 / 2) None)
          ''buy'' 400 mock_order_book ''BTC-USDT''
   \<and> adv (update_adv (MarketImpactModel_init (1 / 10) (1 / 2) None) ''BTC-USDT'' 2000000000)
        ''BTC-USDT'' = Some 2000000000"
  using update_adv_rejects_non_positive
          [of "- 1" "MarketImpactModel_init (1 / 10) (1 / 2) None" "''BTC-USDT''" "''buy''" 400
              mock_order_book]
        update_adv_rejects_non_positive
          [of 2000000000 "MarketImpactModel_init (1 / 10) (1 / 2) None" "''BTC-USDT''" "''buy''" 400
              mock_order_book]
  by simp

section \<open>Fees are never negative\<close>

text \<open>
  C10. In every result of \<open>simulate_order_execution\<close> the fee paid is \<open>\<ge> 0\<close>, whatever
  rates the fee profile holds: \<open>calculate_fee\<close> returns 0 for a negative rate or a
  non-positive amount, so a rebate rate gives a zero fee.
\<close>

theorem fee_paid_non_negative:
  "(simulate_order_execution engine rng side order_type order_quantity order_book order_price
      latency user_fee_profile = Inr r \<longrightarrow> 0 \<le> fee_paid r)
   \<and> (order_amount \<le> 0 \<or> fee_rate < 0 \<longrightarrow> calculate_fee order_amount fee_rate etype = 0)"
proof (intro conjI impI)
  assume "simulate_order_execution engine rng side order_type order_quantity order_book order_price
      latency user_fee_profile = Inr r"
  from simulate_cases [OF this] show "0 \<le> fee_paid r"
  proof (elim disjE exE conjE)
    fix ob ob' eb eq etype warns
    assume "compose_result engine side ob'
                 (case user_fee_profile of None \<Rightarrow> default_fee_profile | Some p \<Rightarrow> p)
                 (eb, eq, etype, warns) = Inr r"
    from compose_result_cases [OF this] show ?thesis
      by (auto simp: create_error_result_def py_round_nonneg calculate_fee_nonneg)
  qed (simp add: create_error_result_def)
next
  assume "order_amount \<le> 0 \<or> fee_rate < 0"
  then show "calculate_fee order_amount fee_rate etype = 0"
    by (auto simp: calculate_fee_def)
qed

theorem fee_paid_non_negative_witness:
  "simulate_order_execution ExecutionEngine_init (constant_random 0) ''buy'' ''market'' 20000
     (Some thin_book) None 0 (Some [''maker'' \<mapsto> - 1 / 100, ''taker'' \<mapsto> 2 / 100])
   = Inr \<lparr>executed_quantity_base = 100, executed_quantity_quote = 10000, average_price = 100,
           slippage_pct = 1 / 2, market_impact_pct = 0, fee_paid = 0,
           execution_type = ''partial'',
           warnings = [PartiallyFilled 10000 20000 ''partial'']\<rparr>
   \<and> calculate_fee 10000 (- 1 / 100) ''partial'' = 0"
  using fee_paid_non_negative [of ExecutionEngine_init "constant_random 0" "''buy''" "''market''" 20000
      "Some thin_book" None 0 "Some [''maker'' \<mapsto> - 1 / 100, ''taker'' \<mapsto> 2 / 100]" _
      10000 "- 1 / 100" "''partial''"]
  by (simp add: engine_defs lower_defs thin_book_def powr_half_eq [of "1 / 100" "1 / 10000"])


end
